theory Spec2Isabelle
  imports Main
begin

section \<open>Python library operations used by the router\<close>

text \<open>
  Exceptions are values. \<open>ValueError\<close>, \<open>KeyError\<close> and \<open>IndexError\<close> are Python's own
  (raised by \<open>list.remove\<close>, by a dictionary lookup and by list indexing); the other three
  are the exception classes that \<open>routing.py\<close> raises itself. \<open>KeyError\<close> carries the key
  that was looked up (\<open>None\<close> for Python's \<open>None\<close>), the others their message.
\<close>

datatype error =
    ValueError string
  | KeyError "string option"
  | IndexError string
  | SATOSABadContextError string
  | SATOSANoBoundEndpointError string
  | UnknownEndpoint string

text \<open>
  \<open>s.replace(old, new)\<close>: every non-overlapping occurrence of \<open>old\<close>, scanning from the
  left. With an empty \<open>old\<close> Python puts \<open>new\<close> before every character and at the end.
\<close>

function str_replace :: "string \<Rightarrow> string \<Rightarrow> string \<Rightarrow> string" where
  "str_replace old new s =
     (if old = [] then new @ concat (map (\<lambda>c. c # new) s)
      else if s = [] then []
      else if take (length old) s = old
        then new @ str_replace old new (drop (length old) s)
      else hd s # str_replace old new (tl s))"
  by pat_completeness auto
termination
  by (relation "measure (\<lambda>(old, new, s). length s)") auto

declare str_replace.simps [simp del]

text \<open>\<open>s.replace(old, new, 1)\<close>: the leftmost occurrence only.\<close>

fun str_replace_first :: "string \<Rightarrow> string \<Rightarrow> string \<Rightarrow> string" where
  "str_replace_first old new [] = (if old = [] then new else [])"
| "str_replace_first old new (c # cs) =
     (if take (length old) (c # cs) = old then new @ drop (length old) (c # cs)
      else c # str_replace_first old new cs)"

text \<open>
  \<open>s.split(sep)\<close> for a one-character separator (the router only splits at \<open>"/"\<close>). The
  result is never empty: \<open>"".split("/")\<close> is \<open>[""]\<close>.
\<close>

fun str_split :: "char \<Rightarrow> string \<Rightarrow> string list" where
  "str_split sep [] = [[]]"
| "str_split sep (c # cs) =
     (if c = sep then [] # str_split sep cs
      else (case str_split sep cs of [] \<Rightarrow> [[c]] | w # ws \<Rightarrow> (c # w) # ws))"

text \<open>\<open>sub in s\<close> on strings: \<open>sub\<close> occurs in \<open>s\<close> as a substring.\<close>

fun str_contains :: "string \<Rightarrow> string \<Rightarrow> bool" where
  "str_contains sub [] = (sub = [])"
| "str_contains sub (c # cs) = (take (length sub) (c # cs) = sub \<or> str_contains sub cs)"

text \<open>\<open>xs.remove(x)\<close>: drops the first \<open>x\<close>, raises \<open>ValueError\<close> when there is none.\<close>

definition list_remove :: "'a \<Rightarrow> 'a list \<Rightarrow> error + 'a list" where
  "list_remove x xs =
     (if x \<in> set xs then Inr (remove1 x xs)
      else Inl (ValueError ''list.remove(x): x not in list''))"

text \<open>
  A \<open>dict\<close> keeps its keys in insertion order, and storing under a key that is already
  there replaces the value in place: an association list with distinct keys.
\<close>

fun dict_setitem :: "('k \<times> 'v) list \<Rightarrow> 'k \<Rightarrow> 'v \<Rightarrow> ('k \<times> 'v) list" where
  "dict_setitem [] k v = [(k, v)]"
| "dict_setitem ((k', v') # d) k v =
     (if k' = k then (k, v) # d else (k', v') # dict_setitem d k v)"

text \<open>
  \<open>d[k]\<close> on a dictionary whose keys are strings; the key looked up may be \<open>None\<close>, which
  is never among them.
\<close>

definition dict_getitem :: "(string \<times> 'v) list \<Rightarrow> string option \<Rightarrow> error + 'v" where
  "dict_getitem d k =
     (case k of
        None \<Rightarrow> Inl (KeyError None)
      | Some k' \<Rightarrow> (case map_of d k' of None \<Rightarrow> Inl (KeyError k) | Some v \<Rightarrow> Inr v))"

text \<open>\<open>k in d\<close>.\<close>

definition dict_contains :: "('k \<times> 'v) list \<Rightarrow> 'k \<Rightarrow> bool" where
  "dict_contains d k = (k \<in> set (map fst d))"

text \<open>
  \<open>not x\<close> for an argument that is \<open>None\<close> or a sequence (a string is a sequence of
  characters), and the sequence itself once \<open>not x\<close> is known to be false.
\<close>

fun py_not :: "'a list option \<Rightarrow> bool" where
  "py_not None = True"
| "py_not (Some xs) = (xs = [])"

fun py_seq :: "'a list option \<Rightarrow> 'a list" where
  "py_seq None = []"
| "py_seq (Some xs) = xs"

section \<open>The data model\<close>

text \<open>
  Module instances. Every module has a \<open>name\<close>; a frontend's \<open>register_endpoints\<close> takes
  the list of backend names, a backend's and a micro-service's take nothing. An endpoint
  table is the ordered list of (pattern, handler-descriptor) pairs that the call returns;
  the descriptor is opaque to the router, hence the type variable \<open>'h\<close>.
\<close>

type_synonym 'h endpoint_table = "(string \<times> 'h) list"

record module_base =
  name :: string

record 'h frontend_module = module_base +
  frontend_register_endpoints :: "string list \<Rightarrow> 'h endpoint_table"

record 'h backend_module = module_base +
  backend_register_endpoints :: "'h endpoint_table"

record 'h micro_service = module_base +
  micro_service_register_endpoints :: "'h endpoint_table"

text \<open>The registry entry \<open>{"instance": instance, "endpoints": ...}\<close> of one module.\<close>

record ('i, 'h) module_entry =
  module_instance :: 'i
  endpoints :: "'h endpoint_table"

type_synonym ('i, 'h) registry = "(string \<times> ('i, 'h) module_entry) list"

record 'h module_router =
  base_url :: string
  frontends :: "('h frontend_module, 'h) registry"
  backends :: "('h backend_module, 'h) registry"
  micro_services :: "('h micro_service, 'h) registry"

text \<open>
  The request context. Every attribute may be \<open>None\<close>. The state is a dictionary from
  keys to values; the router stores \<open>target_frontend\<close> in it, a string or \<open>None\<close>.
\<close>

record Context =
  path :: "string option"
  target_backend :: "string option"
  target_frontend :: "string option"
  target_micro_service :: "string option"
  state :: "string \<rightharpoonup> string option"

definition STATE_KEY :: string where
  "STATE_KEY = ''ROUTER''"

section \<open>Construction of the router\<close>

definition register_frontends ::
  "string list \<Rightarrow> 'h frontend_module list \<Rightarrow> ('h frontend_module, 'h) registry" where
  "register_frontends backend_names fes =
     foldl (\<lambda>d i. dict_setitem d (name i)
              \<lparr>module_instance = i, endpoints = frontend_register_endpoints i backend_names\<rparr>) [] fes"

definition register_backends ::
  "'h backend_module list \<Rightarrow> ('h backend_module, 'h) registry" where
  "register_backends bes =
     foldl (\<lambda>d i. dict_setitem d (name i)
              \<lparr>module_instance = i, endpoints = backend_register_endpoints i\<rparr>) [] bes"

definition register_micro_services ::
  "'h micro_service list \<Rightarrow> ('h micro_service, 'h) registry" where
  "register_micro_services mss =
     foldl (\<lambda>d i. dict_setitem d (name i)
              \<lparr>module_instance = i, endpoints = micro_service_register_endpoints i\<rparr>) [] mss"

text \<open>
  \<open>ModuleRouter.__init__\<close>: the constructed router, or the \<open>ValueError\<close> it raises. The
  three collections are sequences of module instances, as the comprehensions iterate them
  (\<open>for instance in frontends\<close>, with \<open>instance.name\<close>); each argument may be \<open>None\<close>.
\<close>

definition ModuleRouter_init ::
  "string option \<Rightarrow> 'h frontend_module list option \<Rightarrow> 'h backend_module list option \<Rightarrow>
   'h micro_service list option \<Rightarrow> error + 'h module_router" where
  "ModuleRouter_init base_url_arg frontends_arg backends_arg micro_services_arg =
     (if py_not base_url_arg then Inl (ValueError ''Base URL is mandatory'')
      else if py_not frontends_arg \<or> py_not backends_arg
        then Inl (ValueError ''Need at least one frontend and one backend'')
      else
        let backend_names = map name (py_seq backends_arg)
        in Inr \<lparr>base_url = py_seq base_url_arg,
                 frontends = register_frontends backend_names (py_seq frontends_arg),
                 backends = register_backends (py_seq backends_arg),
                 micro_services =
                   (if py_not micro_services_arg then []
                    else register_micro_services (py_seq micro_services_arg))\<rparr>)"

section \<open>Dispatch between backends and frontends\<close>

text \<open>
  The methods mutate the context they are given, and may raise after a mutation. A model
  returns the context as the call leaves it together with the returned value or the
  exception.
\<close>

definition backend_routing ::
  "'h module_router \<Rightarrow> Context \<Rightarrow> Context \<times> (error + 'h backend_module)" where
  "backend_routing self ctx =
     (case dict_getitem (backends self) (target_backend ctx) of
        Inl e \<Rightarrow> (ctx, Inl e)
      | Inr m \<Rightarrow>
          (ctx\<lparr>state := (state ctx)(STATE_KEY \<mapsto> target_frontend ctx)\<rparr>, Inr (module_instance m)))"

definition frontend_routing ::
  "'h module_router \<Rightarrow> Context \<Rightarrow> Context \<times> (error + 'h frontend_module)" where
  "frontend_routing self ctx =
     (case state ctx STATE_KEY of
        None \<Rightarrow> (ctx, Inl (KeyError (Some STATE_KEY)))
      | Some tf \<Rightarrow>
          (let ctx' = ctx\<lparr>target_frontend := tf\<rparr>
           in case dict_getitem (frontends self) tf of
                Inl e \<Rightarrow> (ctx', Inl e)
              | Inr m \<Rightarrow> (ctx', Inr (module_instance m))))"

section \<open>Inbound routing\<close>

text \<open>\<open>"/" in self.base_url.replace("https://", "").replace("http://", "")\<close>.\<close>

definition has_context_path :: "string \<Rightarrow> bool" where
  "has_context_path b =
     str_contains ''/'' (str_replace ''http://'' [] (str_replace ''https://'' [] b))"

text \<open>
  \<open>self.base_url.split("/")[-1]\<close>; the index never fails, as a split is never empty
  (lemma \<open>str_split_not_Nil\<close>).
\<close>

definition base_url_context :: "string \<Rightarrow> string" where
  "base_url_context b = last (str_split CHR ''/'' b)"

text \<open>
  The two \<open>replace\<close> calls of the retry in \<open>_find_registered_endpoint_for_module\<close>: every
  occurrence of the context segment is removed, then the first \<open>"/"\<close>.
\<close>

definition remove_context_path :: "string \<Rightarrow> string \<Rightarrow> string" where
  "remove_context_path b context_path =
     str_replace_first ''/'' [] (str_replace (base_url_context b) [] context_path)"

text \<open>
  \<open>re.search(regex, path) is not None\<close> is a parameter \<open>re_search\<close> of the model: Python's
  regular expressions are not part of the repository. So is \<open>truthy\<close>, the truth value
  Python gives to a handler-descriptor in \<open>if matched:\<close>. The private helpers are only
  called by \<open>endpoint_routing\<close>, after its test that \<open>context.path\<close> is not \<open>None\<close>; they
  read nothing else of the context, so they take the path.

  The loop of \<open>_find_registered_endpoint_for_module\<close> over \<open>module["endpoints"]\<close>:
\<close>

fun find_in_endpoints ::
  "(string \<Rightarrow> string \<Rightarrow> bool) \<Rightarrow> string \<Rightarrow> 'h endpoint_table \<Rightarrow> string \<Rightarrow> 'h option" where
  "find_in_endpoints re_search b [] p = None"
| "find_in_endpoints re_search b ((regex, spec) # rest) p =
     (let match = re_search regex p;
          match = (if \<not> match \<and> has_context_path b
                   then re_search regex (remove_context_path b p) else match)
      in if match then Some spec else find_in_endpoints re_search b rest p)"

definition find_registered_endpoint_for_module ::
  "(string \<Rightarrow> string \<Rightarrow> bool) \<Rightarrow> 'h module_router \<Rightarrow> ('i, 'h) module_entry \<Rightarrow> string \<Rightarrow>
   'h option" where
  "find_registered_endpoint_for_module re_search self module p =
     find_in_endpoints re_search (base_url self) (endpoints module) p"

definition find_registered_backend_endpoint ::
  "(string \<Rightarrow> string \<Rightarrow> bool) \<Rightarrow> 'h module_router \<Rightarrow> Context \<Rightarrow> string \<Rightarrow>
   error + 'h option" where
  "find_registered_backend_endpoint re_search self ctx p =
     (case dict_getitem (backends self) (target_backend ctx) of
        Inl e \<Rightarrow> Inl e
      | Inr m \<Rightarrow> Inr (find_registered_endpoint_for_module re_search self m p))"

text \<open>
  \<open>_find_registered_endpoint\<close>: the loop over \<open>modules.values()\<close>, which raises
  \<open>UnknownEndpoint\<close> when it ends without a match.
\<close>

fun find_registered_endpoint ::
  "(string \<Rightarrow> string \<Rightarrow> bool) \<Rightarrow> ('h \<Rightarrow> bool) \<Rightarrow> 'h module_router \<Rightarrow> string \<Rightarrow>
   ('z module_base_scheme, 'h) registry \<Rightarrow> error + (string \<times> 'h)" where
  "find_registered_endpoint re_search truthy self p [] = Inl (UnknownEndpoint p)"
| "find_registered_endpoint re_search truthy self p ((k, module) # rest) =
     (case find_registered_endpoint_for_module re_search self module p of
        None \<Rightarrow> find_registered_endpoint re_search truthy self p rest
      | Some matched \<Rightarrow>
          if truthy matched then Inr (name (module_instance module), matched)
          else find_registered_endpoint re_search truthy self p rest)"

text \<open>
  The first segment of the path once the context segment is taken out:
  \<open>path_split = context.path.split("/")\<close>, \<open>path_split.remove(base_url_context)\<close> when the
  base URL has a context path, then \<open>path_split[0]\<close>.
\<close>

definition backend_of_path :: "string \<Rightarrow> string \<Rightarrow> error + string" where
  "backend_of_path b p =
     (let path_split = str_split CHR ''/'' p
      in case (if has_context_path b then list_remove (base_url_context b) path_split
               else Inr path_split) of
           Inl e \<Rightarrow> Inl e
         | Inr [] \<Rightarrow> Inl (IndexError ''list index out of range'')
         | Inr (backend # _) \<Rightarrow> Inr backend)"

text \<open>
  The exception of the last line, \<open>"'{}' not bound to any function".format(context.path)\<close>:
  the path between two apostrophes (\<open>CHR 0x27\<close>), then the fixed text.
\<close>

definition no_bound_endpoint :: "string \<Rightarrow> error" where
  "no_bound_endpoint p =
     SATOSANoBoundEndpointError (CHR 0x27 # p @ CHR 0x27 # '' not bound to any function'')"

text \<open>
  The messages for the log are built whether or not they are logged, and one of them can
  fail: line 174 applies \<open>str.format\<close> to an f-string that already holds the \<open>repr\<close> of
  \<open>path_split\<close>, so a path with a brace in it is read as a format string and may raise
  (\<open>KeyError\<close> for \<open>{x}\<close>, \<open>IndexError\<close> for \<open>{}\<close>, \<open>ValueError\<close> for a single brace).
  Python's format-string parser is not part of the repository: \<open>debug_format\<close> is a
  parameter of the model, the exception that this call raises on a given \<open>path_split\<close>,
  or \<open>None\<close> when it returns, as it does on every path without braces. The call comes
  after the split and before the context segment is removed. No other message of the
  module is built this way.
\<close>

definition endpoint_routing ::
  "(string \<Rightarrow> string \<Rightarrow> bool) \<Rightarrow> ('h \<Rightarrow> bool) \<Rightarrow> (string list \<Rightarrow> error option) \<Rightarrow>
   'h module_router \<Rightarrow> Context \<Rightarrow> Context \<times> (error + 'h)" where
  "endpoint_routing re_search truthy debug_format self ctx =
     (case path ctx of
        None \<Rightarrow> (ctx, Inl (SATOSABadContextError ''Context did not contain any path''))
      | Some p \<Rightarrow>
         (case debug_format (str_split CHR ''/'' p) of
            Some e \<Rightarrow> (ctx, Inl e)
          | None \<Rightarrow>
         (case backend_of_path (base_url self) p of
            Inl e \<Rightarrow> (ctx, Inl e)
          | Inr backend \<Rightarrow>
             (let ctx1 = (if dict_contains (backends self) backend
                          then ctx\<lparr>target_backend := Some backend\<rparr> else ctx)
              in case find_registered_endpoint re_search truthy self p (frontends self) of
                   Inr (nm, frontend_endpoint) \<Rightarrow>
                     (ctx1\<lparr>target_frontend := Some nm\<rparr>, Inr frontend_endpoint)
                 | Inl (UnknownEndpoint _) \<Rightarrow>
                    (case find_registered_endpoint re_search truthy self p (micro_services self) of
                       Inr (nm, micro_service_endpoint) \<Rightarrow>
                         (ctx1\<lparr>target_micro_service := Some nm\<rparr>, Inr micro_service_endpoint)
                     | Inl (UnknownEndpoint _) \<Rightarrow>
                        (if dict_contains (backends self) backend then
                           (case find_registered_backend_endpoint re_search self ctx1 p of
                              Inl e \<Rightarrow> (ctx1, Inl e)
                            | Inr None \<Rightarrow> (ctx1, Inl (no_bound_endpoint p))
                            | Inr (Some backend_endpoint) \<Rightarrow>
                                if truthy backend_endpoint then (ctx1, Inr backend_endpoint)
                                else (ctx1, Inl (no_bound_endpoint p)))
                         else (ctx1, Inl (no_bound_endpoint p)))
                     | Inl e \<Rightarrow> (ctx1, Inl e))
                 | Inl e \<Rightarrow> (ctx1, Inl e)))))"

text \<open>
  What the test \<open>match is not None\<close> of the loop body sees for one pattern: the pattern
  matches the raw path, or the base URL has a context path and the pattern matches the
  path with the context removed.
\<close>

definition endpoint_matches ::
  "(string \<Rightarrow> string \<Rightarrow> bool) \<Rightarrow> string \<Rightarrow> string \<Rightarrow> string \<Rightarrow> bool" where
  "endpoint_matches re_search b p regex =
     (re_search regex p \<or> (has_context_path b \<and> re_search regex (remove_context_path b p)))"

section \<open>The search as the specification words it\<close>

text \<open>
  The specification describes the search of one endpoint table as two passes: "Matching
  is attempted first against the raw path; only if no endpoint pattern matches is the
  context-prefix removal applied and matching retried", where the removal takes "the
  trailing path segment of the base URL" away "from the front of the request path". The
  definitions below follow these words, to be compared with \<open>find_in_endpoints\<close>. The
  segment is taken from the front together with the \<open>"/"\<close> that ends it.
\<close>

definition spec_remove_context_prefix :: "string \<Rightarrow> string \<Rightarrow> string" where
  "spec_remove_context_prefix b p =
     (let c = base_url_context b
      in if p = c then []
         else if take (Suc (length c)) p = c @ ''/'' then drop (Suc (length c)) p
         else p)"

definition spec_two_pass_search ::
  "(string \<Rightarrow> string \<Rightarrow> bool) \<Rightarrow> string \<Rightarrow> 'h endpoint_table \<Rightarrow> string \<Rightarrow> 'h option" where
  "spec_two_pass_search re_search b eps p =
     (case find (\<lambda>(regex, spec). re_search regex p) eps of
        Some (regex, spec) \<Rightarrow> Some spec
      | None \<Rightarrow>
          if has_context_path b
          then map_option snd
                 (find (\<lambda>(regex, spec). re_search regex (spec_remove_context_prefix b p)) eps)
          else None)"

section \<open>Example registries\<close>

text \<open>
  Concrete inputs for the closed theorems. \<open>anchored_search\<close> is \<open>re.search\<close> on the
  patterns the examples register, \<open>^w$\<close> with \<open>w\<close> free of metacharacters: such a pattern
  matches \<open>w\<close> itself and \<open>w\<close> followed by one newline, nothing else. The descriptors are
  (callback, binding) pairs as \<open>backends/saml2.py\<close> registers them, here a pair of names;
  a tuple of two components is true in Python.
\<close>

definition anchored_search :: "string \<Rightarrow> string \<Rightarrow> bool" where
  "anchored_search regex s = (let w = butlast (tl regex) in s = w \<or> s = w @ [CHR 0x0A])"

definition pair_truthy :: "string \<times> string \<Rightarrow> bool" where
  "pair_truthy h = True"

text \<open>
  No path of the examples holds a brace, so on them the debug message of line 174 is
  built without an exception.
\<close>

definition format_returns :: "string list \<Rightarrow> error option" where
  "format_returns path_split = None"

definition saml_sp :: "(string \<times> string) frontend_module" where
  "saml_sp = \<lparr>name = ''saml-sp'',
     frontend_register_endpoints = (\<lambda>backend_names. [(''^metadata$'', (''sp_metadata'', ''''))])\<rparr>"

definition saml_sp2 :: "(string \<times> string) frontend_module" where
  "saml_sp2 = \<lparr>name = ''saml-sp2'',
     frontend_register_endpoints = (\<lambda>backend_names. [(''^metadata$'', (''sp2_metadata'', ''''))])\<rparr>"

definition fe1 :: "(string \<times> string) frontend_module" where
  "fe1 = \<lparr>name = ''fe1'',
     frontend_register_endpoints = (\<lambda>backend_names. [(''^fe1/sso$'', (''handle_authn'', ''redirect''))])\<rparr>"

definition idp1 :: "(string \<times> string) backend_module" where
  "idp1 = \<lparr>name = ''idp1'',
     backend_register_endpoints = [(''^idp1/acs$'', (''authn_response'', ''post''))]\<rparr>"

text \<open>A backend and a micro-service whose pattern is also the frontend's.\<close>

definition metadata_backend :: "(string \<times> string) backend_module" where
  "metadata_backend = \<lparr>name = ''metadata'',
     backend_register_endpoints = [(''^metadata$'', (''_metadata'', ''''))]\<rparr>"

definition metadata_service :: "(string \<times> string) micro_service" where
  "metadata_service = \<lparr>name = ''consent'',
     micro_service_register_endpoints = [(''^metadata$'', (''_handle_consent'', ''''))]\<rparr>"

text \<open>A table whose first pattern matches the stripped path and whose second the raw one.\<close>

definition two_metadata_backend :: "(string \<times> string) backend_module" where
  "two_metadata_backend = \<lparr>name = ''idp2'',
     backend_register_endpoints =
       [(''^metadata$'', (''_metadata'', '''')), (''^ctx/metadata$'', (''_ctx_metadata'', ''''))]\<rparr>"

definition two_metadata_entry ::
  "((string \<times> string) backend_module, string \<times> string) module_entry" where
  "two_metadata_entry =
     \<lparr>module_instance = two_metadata_backend,
      endpoints = backend_register_endpoints two_metadata_backend\<rparr>"

definition request :: "string option \<Rightarrow> Context" where
  "request p = \<lparr>path = p, target_backend = None, target_frontend = None,
                 target_micro_service = None, state = Map.empty\<rparr>"

text \<open>The routers that \<open>ModuleRouter_init\<close> builds from these modules under a base URL.\<close>

definition scenario_router :: "string \<Rightarrow> (string \<times> string) module_router" where
  "scenario_router b =
     \<lparr>base_url = b,
      frontends = register_frontends [''idp1''] [saml_sp, fe1],
      backends = register_backends [idp1],
      micro_services = []\<rparr>"

definition overlap_router :: "(string \<times> string) module_router" where
  "overlap_router =
     \<lparr>base_url = ''https://example.com'',
      frontends = register_frontends [''metadata''] [saml_sp, saml_sp2],
      backends = register_backends [metadata_backend],
      micro_services = register_micro_services [metadata_service]\<rparr>"

section \<open>Facts about the library operations\<close>

lemma str_split_not_Nil: "str_split sep s \<noteq> []"
  by (induction s) (auto split: list.splits)

lemma map_of_None_iff_not_contains: "map_of d k = None \<longleftrightarrow> \<not> dict_contains d k"
  by (simp add: dict_contains_def map_of_eq_None_iff)

lemma dict_getitem_absent:
  "k = None \<or> (\<exists>n. k = Some n \<and> \<not> dict_contains d n) \<Longrightarrow> dict_getitem d k = Inl (KeyError k)"
  by (auto simp: dict_getitem_def map_of_None_iff_not_contains [symmetric] split: option.splits)

lemma dict_getitem_present:
  "dict_contains d n \<Longrightarrow> \<exists>v. dict_getitem d (Some n) = Inr v \<and> (n, v) \<in> set d"
  by (cases "map_of d n")
     (auto simp: dict_getitem_def map_of_None_iff_not_contains dest: map_of_SomeD)

lemma find_registered_endpoint_error:
  "find_registered_endpoint re_search truthy self p ms = Inl e \<Longrightarrow> e = UnknownEndpoint p"
  by (induction ms) (auto split: option.splits if_splits)

lemma backend_of_path_error:
  "backend_of_path b p = Inl e \<Longrightarrow> (\<exists>m. e = ValueError m) \<or> (\<exists>m. e = IndexError m)"
  by (auto simp: backend_of_path_def list_remove_def Let_def split: if_splits list.splits)

lemma str_split_no_sep: "sep \<notin> set s \<Longrightarrow> str_split sep s = [s]"
  by (induction s) auto

lemma str_split_segment_no_sep: "w \<in> set (str_split sep s) \<Longrightarrow> sep \<notin> set w"
  by (induction s arbitrary: w) (auto split: if_splits list.splits)

lemma base_url_context_no_slash: "CHR ''/'' \<notin> set (base_url_context b)"
  unfolding base_url_context_def
  using str_split_segment_no_sep [OF last_in_set [OF str_split_not_Nil]] .

lemma dict_setitem_cases:
  "(k, m) \<in> set (dict_setitem d k' v) \<Longrightarrow> (k, m) \<in> set d \<or> (k = k' \<and> m = v)"
  by (induction d k' v rule: dict_setitem.induct) (auto split: if_splits)

lemma registry_entries:
  assumes "(k, m) \<in> set (foldl (\<lambda>d i. dict_setitem d (name i) (mk i)) d0 insts)"
  shows "(k, m) \<in> set d0 \<or> (\<exists>i \<in> set insts. k = name i \<and> m = mk i)"
  using assms
proof (induction insts arbitrary: d0)
  case Nil
  then show ?case by simp
next
  case (Cons i insts)
  from Cons.IH [OF Cons.prems [simplified]] show ?case
    by (auto dest: dict_setitem_cases)
qed

lemma register_frontends_entry:
  "(k, m) \<in> set (register_frontends backend_names fes) \<Longrightarrow>
   module_instance m \<in> set fes \<and> name (module_instance m) = k"
  unfolding register_frontends_def by (drule registry_entries) auto

lemma scenario_router_init:
  "ModuleRouter_init (Some b) (Some [saml_sp, fe1]) (Some [idp1]) None
   = (if b = [] then Inl (ValueError ''Base URL is mandatory'') else Inr (scenario_router b))"
  by (simp add: ModuleRouter_init_def scenario_router_def idp1_def)

lemma overlap_router_init:
  "ModuleRouter_init (Some ''https://example.com'') (Some [saml_sp, saml_sp2])
     (Some [metadata_backend]) (Some [metadata_service]) = Inr overlap_router"
  by (simp add: ModuleRouter_init_def overlap_router_def metadata_backend_def)

lemma example_has_context_path: "has_context_path ''https://example.com/ctx''"
  by code_simp

lemma example_base_url_context: "base_url_context ''https://example.com/ctx'' = ''ctx''"
  by code_simp

lemma example_remove_context_path:
  "remove_context_path ''https://example.com/ctx'' ''ctx/metadata'' = ''metadata''"
  by code_simp

lemma example_backend_of_path:
  "backend_of_path ''https://example.com'' ''metadata'' = Inr ''metadata''"
  "backend_of_path ''https://example.com/ctx'' ''ctx/metadata'' = Inr ''metadata''"
  "backend_of_path ''https://example.com/ctx'' ''metadata''
     = Inl (ValueError ''list.remove(x): x not in list'')"
  "backend_of_path ''https://example.com/ctx'' ''foo''
     = Inl (ValueError ''list.remove(x): x not in list'')"
  by code_simp+

lemma example_no_context_path: "\<not> has_context_path ''https://example.com''"
  by code_simp

lemmas example_registry_defs =
  scenario_router_def overlap_router_def register_frontends_def register_backends_def
  register_micro_services_def saml_sp_def saml_sp2_def fe1_def idp1_def metadata_backend_def
  metadata_service_def

section \<open>Construction\<close>

text \<open>
  Claim C8. Constructing the router fails with a configuration error (\<open>ValueError\<close>)
  exactly when the base URL is absent or empty, or the frontends are absent or empty, or
  the backends are absent or empty. In every other case it succeeds, and when the
  micro-services are absent or empty the router it yields has an empty micro-service
  mapping.
\<close>

theorem ModuleRouter_init_fails_iff:
  "((\<exists>msg. ModuleRouter_init base_url_arg frontends_arg backends_arg micro_services_arg
            = Inl (ValueError msg))
     \<longleftrightarrow> (base_url_arg = None \<or> base_url_arg = Some [] \<or>
          frontends_arg = None \<or> frontends_arg = Some [] \<or>
          backends_arg = None \<or> backends_arg = Some []))
   \<and> ((\<exists>self. ModuleRouter_init base_url_arg frontends_arg backends_arg micro_services_arg
             = Inr self
             \<and> ((micro_services_arg = None \<or> micro_services_arg = Some [])
                  \<longrightarrow> micro_services self = []))
     \<longleftrightarrow> \<not> (base_url_arg = None \<or> base_url_arg = Some [] \<or>
            frontends_arg = None \<or> frontends_arg = Some [] \<or>
            backends_arg = None \<or> backends_arg = Some []))"
  by (cases base_url_arg; cases frontends_arg; cases backends_arg)
     (auto simp: ModuleRouter_init_def Let_def)

theorem ModuleRouter_init_fails_iff_witness:
  "(\<exists>msg. ModuleRouter_init (Some []) (Some [saml_sp]) (Some [idp1]) None = Inl (ValueError msg))
   \<and> (\<exists>msg. ModuleRouter_init (Some ''https://example.com'') (Some []) (Some [idp1]) None
             = Inl (ValueError msg))
   \<and> (\<exists>msg. ModuleRouter_init (Some ''https://example.com'') (Some [saml_sp]) (Some []) None
             = Inl (ValueError msg))
   \<and> (\<exists>self. ModuleRouter_init (Some ''https://example.com'') (Some [saml_sp]) (Some [idp1]) None
             = Inr self \<and> micro_services self = [])
   \<and> (\<exists>self. ModuleRouter_init (Some ''https://example.com'') (Some [saml_sp]) (Some [idp1])
               (Some []) = Inr self \<and> micro_services self = [])"
  using ModuleRouter_init_fails_iff [of "Some []" "Some [saml_sp]" "Some [idp1]" None]
    ModuleRouter_init_fails_iff [of "Some ''https://example.com''" "Some []" "Some [idp1]" None]
    ModuleRouter_init_fails_iff [of "Some ''https://example.com''" "Some [saml_sp]" "Some []" None]
    ModuleRouter_init_fails_iff [of "Some ''https://example.com''" "Some [saml_sp]" "Some [idp1]" None]
    ModuleRouter_init_fails_iff [of "Some ''https://example.com''" "Some [saml_sp]" "Some [idp1]" "Some []"]
  by simp

section \<open>Continuation state\<close>

text \<open>
  Claim C10. When \<open>target_backend\<close> is not the name of a registered backend (or is
  \<open>None\<close>), \<open>backend_routing\<close> raises the \<open>KeyError\<close> of the registry lookup and leaves
  the context as it was: the state is not written, and \<open>state["ROUTER"]\<close> in particular
  keeps whatever it held.
\<close>

theorem backend_routing_unknown_backend:
  assumes "target_backend ctx = None \<or>
           (\<exists>b. target_backend ctx = Some b \<and> \<not> dict_contains (backends self) b)"
  shows "backend_routing self ctx = (ctx, Inl (KeyError (target_backend ctx)))"
  using dict_getitem_absent [OF assms] by (simp add: backend_routing_def)

theorem backend_routing_unknown_backend_witness:
  "backend_routing (scenario_router ''https://example.com'')
     ((request (Some ''fe1/sso''))\<lparr>target_backend := Some ''idp9'', target_frontend := Some ''fe1''\<rparr>)
   = ((request (Some ''fe1/sso''))\<lparr>target_backend := Some ''idp9'', target_frontend := Some ''fe1''\<rparr>,
      Inl (KeyError (Some ''idp9'')))
   \<and> state ((request (Some ''fe1/sso''))\<lparr>target_backend := Some ''idp9'',
               target_frontend := Some ''fe1''\<rparr>) STATE_KEY = None"
  using backend_routing_unknown_backend
    [of "(request (Some ''fe1/sso''))\<lparr>target_backend := Some ''idp9'', target_frontend := Some ''fe1''\<rparr>"
        "scenario_router ''https://example.com''"]
  by (simp add: scenario_router_def register_backends_def idp1_def dict_contains_def request_def)

text \<open>
  Claim C9. When the state has no \<open>"ROUTER"\<close> entry, or the entry is \<open>None\<close> or names no
  registered frontend, \<open>frontend_routing\<close> raises a \<open>KeyError\<close>: it returns no frontend at
  all, so none by default.
\<close>

theorem frontend_routing_lookup_error:
  assumes "state ctx STATE_KEY = None \<or>
           (\<exists>v. state ctx STATE_KEY = Some v \<and>
                (v = None \<or> (\<exists>n. v = Some n \<and> \<not> dict_contains (frontends self) n)))"
  shows "\<exists>k. snd (frontend_routing self ctx) = Inl (KeyError k)"
  using assms
proof
  assume "state ctx STATE_KEY = None"
  then show ?thesis by (simp add: frontend_routing_def)
next
  assume "\<exists>v. state ctx STATE_KEY = Some v \<and>
            (v = None \<or> (\<exists>n. v = Some n \<and> \<not> dict_contains (frontends self) n))"
  then obtain v where v: "state ctx STATE_KEY = Some v"
    and absent: "v = None \<or> (\<exists>n. v = Some n \<and> \<not> dict_contains (frontends self) n)"
    by blast
  from dict_getitem_absent [OF absent] v show ?thesis
    by (simp add: frontend_routing_def Let_def)
qed

theorem frontend_routing_lookup_error_witness:
  "(\<exists>k. snd (frontend_routing (scenario_router ''https://example.com'') (request None))
         = Inl (KeyError k))
   \<and> (\<exists>k. snd (frontend_routing (scenario_router ''https://example.com'')
               ((request None)\<lparr>state := [STATE_KEY \<mapsto> Some ''fe9'']\<rparr>)) = Inl (KeyError k))"
  using frontend_routing_lookup_error [of "request None" "scenario_router ''https://example.com''"]
    frontend_routing_lookup_error
      [of "(request None)\<lparr>state := [STATE_KEY \<mapsto> Some ''fe9'']\<rparr>"
          "scenario_router ''https://example.com''"]
  by (simp add: scenario_router_def register_frontends_def saml_sp_def fe1_def dict_contains_def
        request_def)

text \<open>
  Claim C5. Round trip of the continuation state, on a router that the constructor built:
  if \<open>target_frontend\<close> is the name \<open>f\<close> of a registered frontend (\<open>"fe1"\<close> in the
  specification) and \<open>target_backend\<close> a registered backend, then \<open>backend_routing\<close>
  returns a backend and leaves \<open>f\<close> under \<open>"ROUTER"\<close>; and \<open>frontend_routing\<close> on any
  fresh context that carries this state sets \<open>target_frontend\<close> to \<open>f\<close> and returns one
  of the configured frontend instances, whose name is \<open>f\<close>.
\<close>

theorem continuation_round_trip:
  assumes "ModuleRouter_init base_url_arg frontends_arg backends_arg micro_services_arg = Inr self"
    and "target_frontend ctx = Some f"
    and "dict_contains (frontends self) f"
    and "target_backend ctx = Some b"
    and "dict_contains (backends self) b"
    and "state fresh = state (fst (backend_routing self ctx))"
  shows "\<exists>be fe. snd (backend_routing self ctx) = Inr be
           \<and> state (fst (backend_routing self ctx)) STATE_KEY = Some (Some f)
           \<and> frontend_routing self fresh = (fresh\<lparr>target_frontend := Some f\<rparr>, Inr fe)
           \<and> name fe = f \<and> fe \<in> set (py_seq frontends_arg)"
proof -
  from dict_getitem_present [OF assms(5)] obtain bm where
    bm: "dict_getitem (backends self) (Some b) = Inr bm" by blast
  from dict_getitem_present [OF assms(3)] obtain fm where
    fm: "dict_getitem (frontends self) (Some f) = Inr fm" and mem: "(f, fm) \<in> set (frontends self)"
    by blast
  from assms(1) have "frontends self =
      register_frontends (map name (py_seq backends_arg)) (py_seq frontends_arg)"
    by (auto simp: ModuleRouter_init_def Let_def split: if_splits)
  with mem register_frontends_entry
  have named: "name (module_instance fm) = f" "module_instance fm \<in> set (py_seq frontends_arg)"
    by metis+
  have routed: "backend_routing self ctx
      = (ctx\<lparr>state := (state ctx)(STATE_KEY \<mapsto> Some f)\<rparr>, Inr (module_instance bm))"
    using bm assms(2,4) by (simp add: backend_routing_def)
  with assms(6) have "state fresh STATE_KEY = Some (Some f)" by simp
  with fm have "frontend_routing self fresh
      = (fresh\<lparr>target_frontend := Some f\<rparr>, Inr (module_instance fm))"
    by (simp add: frontend_routing_def Let_def)
  with routed named show ?thesis by simp
qed

theorem continuation_round_trip_witness:
  "\<exists>be fe.
     snd (backend_routing (scenario_router ''https://example.com'')
            ((request (Some ''fe1/sso''))\<lparr>target_backend := Some ''idp1'',
               target_frontend := Some ''fe1''\<rparr>)) = Inr be
     \<and> state (fst (backend_routing (scenario_router ''https://example.com'')
            ((request (Some ''fe1/sso''))\<lparr>target_backend := Some ''idp1'',
               target_frontend := Some ''fe1''\<rparr>))) STATE_KEY = Some (Some ''fe1'')
     \<and> frontend_routing (scenario_router ''https://example.com'')
          ((request (Some ''idp1/acs''))\<lparr>state :=
             state (fst (backend_routing (scenario_router ''https://example.com'')
               ((request (Some ''fe1/sso''))\<lparr>target_backend := Some ''idp1'',
                  target_frontend := Some ''fe1''\<rparr>)))\<rparr>)
        = ((request (Some ''idp1/acs''))\<lparr>state :=
             state (fst (backend_routing (scenario_router ''https://example.com'')
               ((request (Some ''fe1/sso''))\<lparr>target_backend := Some ''idp1'',
                  target_frontend := Some ''fe1''\<rparr>))),
             target_frontend := Some ''fe1''\<rparr>, Inr fe)
     \<and> name fe = ''fe1'' \<and> fe \<in> set [saml_sp, fe1]"
  using continuation_round_trip
    [of "Some ''https://example.com''" "Some [saml_sp, fe1]" "Some [idp1]" None
        "scenario_router ''https://example.com''"
        "(request (Some ''fe1/sso''))\<lparr>target_backend := Some ''idp1'', target_frontend := Some ''fe1''\<rparr>"
        "''fe1''" "''idp1''"
        "(request (Some ''idp1/acs''))\<lparr>state :=
             state (fst (backend_routing (scenario_router ''https://example.com'')
               ((request (Some ''fe1/sso''))\<lparr>target_backend := Some ''idp1'',
                  target_frontend := Some ''fe1''\<rparr>)))\<rparr>"]
  by (simp add: scenario_router_init)
     (simp add: scenario_router_def register_frontends_def register_backends_def saml_sp_def
        fe1_def idp1_def dict_contains_def)

section \<open>Inbound routing: the errors\<close>

text \<open>
  Claim C6. \<open>endpoint_routing\<close> raises \<open>SATOSABadContextError\<close> if and only if the path of
  the context is \<open>None\<close>; in that case the context is returned untouched and the outcome
  depends neither on the router nor on the matcher, so nothing was normalised, selected
  or searched. (That \<open>str.format\<close> raises no exception of the repository is the one thing
  asked of the parameter \<open>debug_format\<close>.)
\<close>

theorem endpoint_routing_bad_context_iff:
  assumes "\<And>path_split msg. debug_format path_split \<noteq> Some (SATOSABadContextError msg)"
  shows "((\<exists>msg. snd (endpoint_routing re_search truthy debug_format self ctx)
                 = Inl (SATOSABadContextError msg))
            \<longleftrightarrow> path ctx = None)
         \<and> (path ctx = None \<longrightarrow>
              endpoint_routing re_search truthy debug_format self ctx
                = (ctx, Inl (SATOSABadContextError ''Context did not contain any path'')))"
proof (cases "path ctx")
  case None
  then show ?thesis by (simp add: endpoint_routing_def)
next
  case (Some p)
  have "snd (endpoint_routing re_search truthy debug_format self ctx)
        \<noteq> Inl (SATOSABadContextError msg)" for msg
  proof (cases "debug_format (str_split CHR ''/'' p)")
    case (Some e)
    with \<open>path ctx = Some p\<close> assms [of "str_split CHR ''/'' p" msg] show ?thesis
      by (auto simp: endpoint_routing_def)
  next
    case None
    with \<open>path ctx = Some p\<close> show ?thesis
      by (auto simp: endpoint_routing_def Let_def no_bound_endpoint_def
            find_registered_backend_endpoint_def dict_getitem_def
          split: sum.splits error.splits option.splits if_splits prod.splits
          dest: backend_of_path_error find_registered_endpoint_error)
  qed
  with Some show ?thesis by simp
qed

theorem endpoint_routing_bad_context_iff_witness:
  "endpoint_routing anchored_search pair_truthy format_returns
     (scenario_router ''https://example.com/ctx'') (request None)
   = (request None, Inl (SATOSABadContextError ''Context did not contain any path''))
   \<and> (\<nexists>msg. snd (endpoint_routing anchored_search pair_truthy format_returns
                   (scenario_router ''https://example.com/ctx'') (request (Some ''metadata'')))
          = Inl (SATOSABadContextError msg))"
  using endpoint_routing_bad_context_iff
      [where debug_format = format_returns and re_search = anchored_search
         and truthy = pair_truthy and self = "scenario_router ''https://example.com/ctx''"
         and ctx = "request None"]
    endpoint_routing_bad_context_iff
      [where debug_format = format_returns and re_search = anchored_search
         and truthy = pair_truthy and self = "scenario_router ''https://example.com/ctx''"
         and ctx = "request (Some ''metadata'')"]
  by (simp add: request_def format_returns_def)

section \<open>Inbound routing: the context path of the base URL\<close>

text \<open>
  Claim C2. The claim asks that a path equal to the context segment of the base URL ends
  in a handler-descriptor or in \<open>SATOSANoBoundEndpointError\<close>. The code does neither:
  whenever the base URL has a context path, the split of such a path is the one-element
  list of the segment, \<open>path_split.remove\<close> empties it, and \<open>path_split[0]\<close> raises
  \<open>IndexError\<close>, before any table is searched and whatever the tables hold. (A segment
  with a brace in it may already fail in the debug message, with another exception.)
\<close>

theorem endpoint_routing_context_only:
  assumes "has_context_path (base_url self)"
    and "path ctx = Some (base_url_context (base_url self))"
    and "debug_format [base_url_context (base_url self)] = None"
  shows "endpoint_routing re_search truthy debug_format self ctx
         = (ctx, Inl (IndexError ''list index out of range''))"
proof -
  have split: "str_split CHR ''/'' (base_url_context (base_url self))
               = [base_url_context (base_url self)]"
    using base_url_context_no_slash by (rule str_split_no_sep)
  then have "backend_of_path (base_url self) (base_url_context (base_url self))
        = Inl (IndexError ''list index out of range'')"
    using assms(1) by (simp add: backend_of_path_def list_remove_def)
  with assms(2,3) split show ?thesis by (simp add: endpoint_routing_def)
qed

theorem endpoint_routing_context_only_witness:
  "endpoint_routing anchored_search pair_truthy format_returns
     (scenario_router ''https://example.com/ctx'') (request (Some ''ctx''))
   = (request (Some ''ctx''), Inl (IndexError ''list index out of range''))"
  using endpoint_routing_context_only
    [where self = "scenario_router ''https://example.com/ctx''"
       and ctx = "request (Some ''ctx'')" and debug_format = format_returns
       and re_search = anchored_search and truthy = pair_truthy]
  by (simp add: scenario_router_def request_def example_has_context_path
        example_base_url_context format_returns_def)

text \<open>
  Claim C1. The claim asks that, under a base URL with a context path, the logical path
  alone and the logical path behind the context segment reach the same handler. The code
  serves only the second: on the path without the segment, \<open>path_split.remove\<close> finds
  nothing to remove and raises \<open>ValueError\<close> before any table is searched, although the
  retry in \<open>_find_registered_endpoint_for_module\<close> is written to accept both forms. Here
  the pattern \<open>^metadata$\<close> of the frontend \<open>saml-sp\<close> matches the logical path
  \<open>metadata\<close>; \<open>ctx/metadata\<close> is routed to it and \<open>metadata\<close> is not.
\<close>

theorem endpoint_routing_unprefixed_path:
  "anchored_search ''^metadata$'' ''metadata''
   \<and> endpoint_routing anchored_search pair_truthy format_returns
       (scenario_router ''https://example.com/ctx'')
       (request (Some ''ctx/metadata''))
       = ((request (Some ''ctx/metadata''))\<lparr>target_frontend := Some ''saml-sp''\<rparr>,
          Inr (''sp_metadata'', ''''))
   \<and> endpoint_routing anchored_search pair_truthy format_returns
       (scenario_router ''https://example.com/ctx'')
       (request (Some ''metadata''))
       = (request (Some ''metadata''), Inl (ValueError ''list.remove(x): x not in list''))"
  by (simp add: example_registry_defs endpoint_routing_def request_def format_returns_def
        find_registered_endpoint_for_module_def anchored_search_def pair_truthy_def
        example_backend_of_path dict_contains_def example_has_context_path
        example_remove_context_path)

text \<open>
  Claim C7. The claim asks for \<open>SATOSANoBoundEndpointError\<close> on every path that no
  pattern matches. Under a base URL with a context path the code raises \<open>ValueError\<close>
  instead when the path does not hold the context segment: no frontend pattern matches
  \<open>foo\<close>, there is no micro-service, \<open>foo\<close> names no backend, and the call ends in the
  \<open>ValueError\<close> of \<open>path_split.remove\<close>.
\<close>

theorem endpoint_routing_unbound_unprefixed_path:
  "find_registered_endpoint anchored_search pair_truthy
     (scenario_router ''https://example.com/ctx'') ''foo''
     (frontends (scenario_router ''https://example.com/ctx'')) = Inl (UnknownEndpoint ''foo'')
   \<and> micro_services (scenario_router ''https://example.com/ctx'') = []
   \<and> \<not> dict_contains (backends (scenario_router ''https://example.com/ctx'')) ''foo''
   \<and> endpoint_routing anchored_search pair_truthy format_returns
       (scenario_router ''https://example.com/ctx'')
       (request (Some ''foo''))
       = (request (Some ''foo''), Inl (ValueError ''list.remove(x): x not in list''))"
proof -
  have "remove_context_path ''https://example.com/ctx'' ''foo'' = ''foo''"
    by code_simp
  then show ?thesis
    by (simp add: example_registry_defs endpoint_routing_def request_def format_returns_def
        find_registered_endpoint_for_module_def anchored_search_def pair_truthy_def
        example_backend_of_path dict_contains_def example_has_context_path)
qed

section \<open>The search of one endpoint table\<close>

lemma find_in_endpoints_find:
  "find_in_endpoints re_search b eps p
   = map_option snd (find (\<lambda>(regex, spec). endpoint_matches re_search b p regex) eps)"
proof (induction eps)
  case Nil
  then show ?case by simp
next
  case (Cons e eps)
  obtain regex spec where e: "e = (regex, spec)" by (cases e)
  show ?case
  proof (cases "endpoint_matches re_search b p regex")
    case True
    then show ?thesis
      unfolding e endpoint_matches_def by (cases "re_search regex p") simp_all
  next
    case False
    with Cons.IH show ?thesis
      unfolding e endpoint_matches_def by (cases "re_search regex p") simp_all
  qed
qed

lemma str_replace_Nil: "str_replace [] [] s = s"
  by (induction s) (simp_all add: str_replace.simps)

lemma str_replace_absent:
  "old \<noteq> [] \<Longrightarrow> \<not> str_contains old s \<Longrightarrow> str_replace old new s = s"
proof (induction s)
  case Nil
  then show ?case by (simp add: str_replace.simps)
next
  case (Cons c cs)
  then show ?case by (subst str_replace.simps) auto
qed

lemma str_replace_prefix:
  "old \<noteq> [] \<Longrightarrow> str_replace old new (old @ s) = new @ str_replace old new s"
  by (subst str_replace.simps) simp

lemma str_contains_slash_cons:
  assumes "c \<noteq> []" and "CHR ''/'' \<notin> set c" and "\<not> str_contains c q"
  shows "\<not> str_contains c (CHR ''/'' # q)"
proof -
  have "take (length c) (CHR ''/'' # q) \<noteq> c"
  proof
    assume "take (length c) (CHR ''/'' # q) = c"
    with assms(1) have "hd c = CHR ''/''" by (cases c) auto
    with assms(1,2) show False by (cases c) auto
  qed
  with assms(3) show ?thesis by simp
qed

lemma remove_context_path_prefixed:
  assumes "base_url_context b = [] \<or> \<not> str_contains (base_url_context b) q"
  shows "remove_context_path b (base_url_context b @ ''/'' @ q) = q"
proof (cases "base_url_context b = []")
  case True
  then show ?thesis by (simp add: remove_context_path_def str_replace_Nil)
next
  case False
  with assms have absent: "\<not> str_contains (base_url_context b) q" by simp
  have "str_replace (base_url_context b) [] (base_url_context b @ CHR ''/'' # q)
        = CHR ''/'' # q"
    using str_replace_prefix [OF False, of "[]" "CHR ''/'' # q"]
      str_replace_absent [OF False str_contains_slash_cons
        [OF False base_url_context_no_slash absent], of "[]"]
    by simp
  then show ?thesis by (simp add: remove_context_path_def)
qed

text \<open>
  Claim C3, as amended. The code does not search the table twice. It takes the patterns
  in registration order and tries each one first on the raw path and then, only if that
  pattern did not match the raw path and the base URL has a context path, on the path
  with the context removed; the first pattern that matches either way gives the result,
  and there is none when no pattern matches either way. For a request path made of the
  trailing segment of the base URL, a \<open>"/"\<close> and a remainder in which the segment does
  not occur, the path with the context removed is that remainder.
\<close>

theorem find_registered_endpoint_for_module_per_pattern:
  "find_registered_endpoint_for_module re_search self module p
     = map_option snd
         (find (\<lambda>(regex, spec).
                  re_search regex p \<or>
                  (has_context_path (base_url self) \<and>
                   re_search regex (remove_context_path (base_url self) p)))
            (endpoints module))
   \<and> (base_url_context (base_url self) = [] \<or> \<not> str_contains (base_url_context (base_url self)) q
        \<longrightarrow> remove_context_path (base_url self) (base_url_context (base_url self) @ ''/'' @ q) = q)"
  using find_in_endpoints_find [of re_search "base_url self" "endpoints module" p]
    remove_context_path_prefixed [of "base_url self" q]
  by (simp add: find_registered_endpoint_for_module_def endpoint_matches_def)

theorem find_registered_endpoint_for_module_per_pattern_witness:
  "find_registered_endpoint_for_module anchored_search
     (scenario_router ''https://example.com/ctx'') two_metadata_entry ''ctx/metadata''
     = Some (''_metadata'', '''')
   \<and> remove_context_path ''https://example.com/ctx'' ''ctx/idp1/acs'' = ''idp1/acs''"
  using find_registered_endpoint_for_module_per_pattern
    [of anchored_search "scenario_router ''https://example.com/ctx''" two_metadata_entry
        "''ctx/metadata''" "''idp1/acs''"]
  by (simp add: scenario_router_def two_metadata_entry_def two_metadata_backend_def
        anchored_search_def example_has_context_path example_remove_context_path
        example_base_url_context)

text \<open>
  The claim as stated (a pass over all patterns on the raw path, and only then a pass on
  the stripped path) fails: under the base URL \<open>https://example.com/ctx\<close> and for the path
  \<open>ctx/metadata\<close>, a table that registers \<open>^metadata$\<close> before \<open>^ctx/metadata$\<close> yields the
  first descriptor in the code, by the retry of the first pattern, and the second in the
  two-pass search, by its raw pass.
\<close>

theorem two_pass_search_counterexample:
  "find_registered_endpoint_for_module anchored_search
     (scenario_router ''https://example.com/ctx'') two_metadata_entry ''ctx/metadata''
     = Some (''_metadata'', '''')
   \<and> spec_two_pass_search anchored_search ''https://example.com/ctx''
       (endpoints two_metadata_entry) ''ctx/metadata'' = Some (''_ctx_metadata'', '''')"
  by (simp add: find_registered_endpoint_for_module_def scenario_router_def
        two_metadata_entry_def two_metadata_backend_def spec_two_pass_search_def
        anchored_search_def example_has_context_path example_remove_context_path)

section \<open>Priority of the frontends\<close>

lemma find_in_endpoints_none:
  "\<forall>(regex, spec) \<in> set eps. \<not> endpoint_matches re_search b p regex \<Longrightarrow>
   find_in_endpoints re_search b eps p = None"
  unfolding find_in_endpoints_find by (induction eps) auto

lemma find_in_endpoints_first:
  assumes "eps = before @ (P, h) # after"
    and "\<forall>(regex, spec) \<in> set before. \<not> endpoint_matches re_search b p regex"
    and "endpoint_matches re_search b p P"
  shows "find_in_endpoints re_search b eps p = Some h"
  using assms(2) unfolding find_in_endpoints_find assms(1)
  by (induction before) (auto simp: assms(3))

lemma find_registered_endpoint_none:
  "\<forall>(k, m) \<in> set ms. find_registered_endpoint_for_module re_search self m p = None \<Longrightarrow>
   find_registered_endpoint re_search truthy self p ms = Inl (UnknownEndpoint p)"
  by (induction ms) auto

lemma find_registered_endpoint_first:
  assumes "\<forall>(k', m) \<in> set earlier. find_registered_endpoint_for_module re_search self m p = None"
    and "find_registered_endpoint_for_module re_search self F p = Some h"
    and "truthy h"
  shows "find_registered_endpoint re_search truthy self p (earlier @ (k, F) # later)
         = Inr (name (module_instance F), h)"
  using assms(1) by (induction earlier) (auto simp: assms(2,3))

text \<open>
  Claim C4, as amended. Let the path be present, and let the steps before the search,
  the debug message and the extraction of the first segment, raise nothing. If \<open>F\<close> is the first frontend in registry order with a matching
  pattern, \<open>P\<close> the first pattern of \<open>F\<close> that matches, and the descriptor \<open>h\<close> of \<open>P\<close> is
  true in Python's sense, then \<open>endpoint_routing\<close> sets \<open>target_frontend\<close> to the name of
  \<open>F\<close> and returns \<open>h\<close>. The outcome mentions neither the micro-services nor any backend
  table, so it is the same whatever they register; the backends only decide, by their
  names, whether \<open>target_backend\<close> is set.
\<close>

theorem endpoint_routing_first_frontend:
  assumes path: "path ctx = Some p"
    and format: "debug_format (str_split CHR ''/'' p) = None"
    and segment: "backend_of_path (base_url self) p = Inr backend"
    and registry: "frontends self = earlier @ (k, F) # later"
    and earlier: "\<forall>(k', m) \<in> set earlier. \<forall>(regex, spec) \<in> set (endpoints m).
           \<not> endpoint_matches re_search (base_url self) p regex"
    and table: "endpoints F = before @ (P, h) # after"
    and before: "\<forall>(regex, spec) \<in> set before.
           \<not> endpoint_matches re_search (base_url self) p regex"
    and matches: "endpoint_matches re_search (base_url self) p P"
    and truthy: "truthy h"
  shows "endpoint_routing re_search truthy debug_format self ctx
         = ((if dict_contains (backends self) backend
             then ctx\<lparr>target_backend := Some backend\<rparr> else ctx)
              \<lparr>target_frontend := Some (name (module_instance F))\<rparr>, Inr h)"
proof -
  have "\<forall>(k', m) \<in> set earlier. find_registered_endpoint_for_module re_search self m p = None"
    using earlier by (auto simp: find_registered_endpoint_for_module_def
        intro!: find_in_endpoints_none)
  moreover have "find_registered_endpoint_for_module re_search self F p = Some h"
    unfolding find_registered_endpoint_for_module_def
    using table before matches by (rule find_in_endpoints_first)
  ultimately have "find_registered_endpoint re_search truthy self p (frontends self)
      = Inr (name (module_instance F), h)"
    unfolding registry using truthy by (rule find_registered_endpoint_first)
  with path format segment show ?thesis by (simp add: endpoint_routing_def Let_def)
qed

theorem endpoint_routing_first_frontend_witness:
  "endpoint_matches anchored_search ''https://example.com'' ''metadata'' ''^metadata$''
   \<and> map_of (backends overlap_router) ''metadata''
       = Some \<lparr>module_instance = metadata_backend,
               endpoints = [(''^metadata$'', (''_metadata'', ''''))]\<rparr>
   \<and> endpoint_routing anchored_search pair_truthy format_returns overlap_router
       (request (Some ''metadata''))
       = ((request (Some ''metadata''))\<lparr>target_backend := Some ''metadata'',
            target_frontend := Some ''saml-sp''\<rparr>, Inr (''sp_metadata'', ''''))"
  using endpoint_routing_first_frontend
    [where ctx = "request (Some ''metadata'')" and p = "''metadata''"
       and debug_format = format_returns and self = overlap_router
       and backend = "''metadata''" and earlier = "[]" and k = "''saml-sp''"
       and F = "\<lparr>module_instance = saml_sp,
                  endpoints = [(''^metadata$'', (''sp_metadata'', ''''))]\<rparr>"
       and later = "[(''saml-sp2'', \<lparr>module_instance = saml_sp2,
                       endpoints = [(''^metadata$'', (''sp2_metadata'', ''''))]\<rparr>)]"
       and re_search = anchored_search and before = "[]" and P = "''^metadata$''"
       and h = "(''sp_metadata'', '''')" and after = "[]" and truthy = pair_truthy]
  by (simp add: example_registry_defs request_def endpoint_matches_def anchored_search_def
        pair_truthy_def example_backend_of_path dict_contains_def format_returns_def)

text \<open>
  The claim as stated, for every frontend and every pattern of it, fails: \<open>saml-sp2\<close>
  registers \<open>^metadata$\<close>, which matches the path \<open>metadata\<close>, and the request is routed to
  \<open>saml-sp\<close>, which comes first in the registry and registers the same pattern.
\<close>

theorem first_frontend_counterexample:
  "map_of (frontends overlap_router) ''saml-sp2''
     = Some \<lparr>module_instance = saml_sp2,
             endpoints = [(''^metadata$'', (''sp2_metadata'', ''''))]\<rparr>
   \<and> anchored_search ''^metadata$'' ''metadata''
   \<and> endpoint_routing anchored_search pair_truthy format_returns overlap_router
       (request (Some ''metadata''))
       = ((request (Some ''metadata''))\<lparr>target_backend := Some ''metadata'',
            target_frontend := Some ''saml-sp''\<rparr>, Inr (''sp_metadata'', ''''))"
  by (simp add: example_registry_defs endpoint_routing_def request_def format_returns_def
        find_registered_endpoint_for_module_def anchored_search_def pair_truthy_def
        example_backend_of_path dict_contains_def)

section \<open>Unbound paths\<close>

text \<open>
  Where the first segment of the path can be taken, which is always so under a base URL
  without a context path, a path that no frontend pattern, no micro-service pattern and
  no pattern of the backend named by that segment matches ends in
  \<open>SATOSANoBoundEndpointError\<close>, whose message holds the path.
\<close>

lemma backend_of_path_no_context:
  "\<not> has_context_path b \<Longrightarrow> \<exists>backend. backend_of_path b p = Inr backend"
  using str_split_not_Nil [of "CHR ''/''" p]
  by (cases "str_split CHR ''/'' p") (simp_all add: backend_of_path_def)

lemma endpoint_routing_no_match:
  assumes path: "path ctx = Some p"
    and format: "debug_format (str_split CHR ''/'' p) = None"
    and segment: "backend_of_path (base_url self) p = Inr backend"
    and "\<forall>(k, m) \<in> set (frontends self). \<forall>(regex, spec) \<in> set (endpoints m).
           \<not> endpoint_matches re_search (base_url self) p regex"
    and "\<forall>(k, m) \<in> set (micro_services self). \<forall>(regex, spec) \<in> set (endpoints m).
           \<not> endpoint_matches re_search (base_url self) p regex"
    and backend: "\<forall>m. map_of (backends self) backend = Some m \<longrightarrow>
           (\<forall>(regex, spec) \<in> set (endpoints m).
              \<not> endpoint_matches re_search (base_url self) p regex)"
  shows "snd (endpoint_routing re_search truthy debug_format self ctx)
         = Inl (no_bound_endpoint p)"
proof -
  have fe: "find_registered_endpoint re_search truthy self p (frontends self)
            = Inl (UnknownEndpoint p)"
    using assms(4) by (auto simp: find_registered_endpoint_for_module_def
        intro!: find_registered_endpoint_none find_in_endpoints_none)
  have ms: "find_registered_endpoint re_search truthy self p (micro_services self)
            = Inl (UnknownEndpoint p)"
    using assms(5) by (auto simp: find_registered_endpoint_for_module_def
        intro!: find_registered_endpoint_none find_in_endpoints_none)
  show ?thesis
  proof (cases "dict_contains (backends self) backend")
    case False
    with path format segment fe ms show ?thesis by (simp add: endpoint_routing_def)
  next
    case True
    from dict_getitem_present [OF True] obtain m where
      m: "dict_getitem (backends self) (Some backend) = Inr m" by blast
    then have "map_of (backends self) backend = Some m"
      by (auto simp: dict_getitem_def split: option.splits)
    with backend have "find_registered_endpoint_for_module re_search self m p = None"
      by (auto simp: find_registered_endpoint_for_module_def intro!: find_in_endpoints_none)
    with path format segment fe ms True m show ?thesis
      by (simp add: endpoint_routing_def find_registered_backend_endpoint_def)
  qed
qed

end
